theory Spec2Isabelle
  imports Main "HOL-Library.Word"
begin

unbundle bit_operations_syntax

section \<open>The chip behind the bus\<close>

text \<open>
  The driver in \<^verbatim>\<open>pcf85263a.py\<close> keeps no state of its own besides the handle of the
  I2C device; everything it reads or writes lives in the registers of the chip. The chip
  is modelled as a passive register file, together with a log of what the driver did on
  the bus and a script that says which of the coming transactions fail.
\<close>

type_synonym byte = "8 word"

datatype error = TransportError | RangeError

datatype event =
    Sleep nat
  | WriteThenRead nat nat nat
  | Write nat nat "byte list"

text \<open>
  \<open>Sleep ms\<close> is a delay in milliseconds, \<open>WriteThenRead dev reg n\<close> a transaction that
  writes the register address \<open>reg\<close> to the device \<open>dev\<close> and reads \<open>n\<close> bytes back,
  \<open>Write dev reg data\<close> a transaction that writes the register address followed by the
  data bytes.
\<close>

record chip =
  regs :: "nat \<Rightarrow> byte"
  faults :: "bool list"
  log :: "event list"

type_synonym 'a io = "chip \<Rightarrow> (error + 'a) \<times> chip"

definition next_fails :: "chip \<Rightarrow> bool" where
  "next_fails s = (case faults s of [] \<Rightarrow> False | f # fs \<Rightarrow> f)"

definition sleep :: "nat \<Rightarrow> chip \<Rightarrow> chip" where
  "sleep ms s = s\<lparr>log := log s @ [Sleep ms]\<rparr>"

text \<open>
  Modelled from the spec: the bus transport (\<^verbatim>\<open>adafruit_bus_device.i2c_device.I2CDevice\<close>)
  is not part of the source tree. Sections 5 and 6 of the specification give its two
  transactions: a register read is "write 1-byte register address, then read N bytes", a
  register write is "write register address followed by N data bytes"; either may fail
  with a transport error. A failed transaction leaves the registers as they are.
\<close>

definition write_then_readinto :: "nat \<Rightarrow> nat \<Rightarrow> nat \<Rightarrow> byte list io" where
  "write_then_readinto dev reg n s =
     (let s' = s\<lparr>faults := tl (faults s), log := log s @ [WriteThenRead dev reg n]\<rparr> in
      if next_fails s then (Inl TransportError, s')
      else (Inr (map (\<lambda>i. regs s (reg + i)) [0..<n]), s'))"

definition i2c_write :: "nat \<Rightarrow> nat \<Rightarrow> byte list \<Rightarrow> unit io" where
  "i2c_write dev reg data s =
     (let s' = s\<lparr>faults := tl (faults s), log := log s @ [Write dev reg data]\<rparr> in
      if next_fails s then (Inl TransportError, s')
      else (Inr (),
            s'\<lparr>regs := (\<lambda>a. if reg \<le> a \<and> a < reg + length data
                             then data ! (a - reg) else regs s a)\<rparr>))"

section \<open>The driver object\<close>

record PCF85263A =
  i2c_device :: nat

text \<open>
  \<^verbatim>\<open>__init__\<close>: sleep 50 ms, bind the device at address 0x51, then one
  write-then-read of register 0x12 whose result is dropped.
\<close>

definition init :: "PCF85263A io" where
  "init s =
     (let s1 = sleep 50 s;
          self = \<lparr>i2c_device = 0x51\<rparr> in
      case write_then_readinto (i2c_device self) 0x12 1 s1 of
        (Inl e, s2) \<Rightarrow> (Inl e, s2)
      | (Inr buf, s2) \<Rightarrow> (Inr self, s2))"

section \<open>Register descriptors\<close>

text \<open>
  The class attributes of \<^verbatim>\<open>PCF85263A\<close> are descriptors: each is a value that names a
  place in the register map, and reading or assigning the attribute runs the descriptor's
  \<^verbatim>\<open>__get__\<close> or \<^verbatim>\<open>__set__\<close>. The arguments are in the order the source passes them.
\<close>

datatype RWBit = RWBit nat nat

datatype RWBits = RWBits nat nat nat

text \<open>
  Modelled from the spec: the descriptor classes \<^verbatim>\<open>i2c_bit.RWBit\<close> and
  \<^verbatim>\<open>i2c_bits.RWBits\<close> of the \<^verbatim>\<open>adafruit_register\<close> package are not part of the source
  tree. Section 9 of the specification describes them as one byte-level accessor
  parameterized by address, bit offset and bit width, with read-modify-write semantics
  per field; section 5 makes a read one write-then-read transaction and a write one write
  transaction. Values are Python integers; the byte stored is the low eight bits.
\<close>

fun RWBit_get :: "RWBit \<Rightarrow> PCF85263A \<Rightarrow> bool io" where
  "RWBit_get (RWBit register_address b) self s =
     (case write_then_readinto (i2c_device self) register_address 1 s of
        (Inl e, s') \<Rightarrow> (Inl e, s')
      | (Inr buf, s') \<Rightarrow> (Inr (bit (buf ! 0) b), s'))"

fun RWBit_set :: "RWBit \<Rightarrow> PCF85263A \<Rightarrow> bool \<Rightarrow> unit io" where
  "RWBit_set (RWBit register_address b) self v s =
     (case write_then_readinto (i2c_device self) register_address 1 s of
        (Inl e, s') \<Rightarrow> (Inl e, s')
      | (Inr buf, s') \<Rightarrow>
          i2c_write (i2c_device self) register_address
            [if v then (buf ! 0) OR push_bit b 1 else (buf ! 0) AND NOT (push_bit b 1)] s')"

definition bit_mask :: "nat \<Rightarrow> nat \<Rightarrow> int" where
  "bit_mask num_bits lowest_bit = push_bit lowest_bit (2 ^ num_bits - 1)"

fun RWBits_get :: "RWBits \<Rightarrow> PCF85263A \<Rightarrow> int io" where
  "RWBits_get (RWBits num_bits register_address lowest_bit) self s =
     (case write_then_readinto (i2c_device self) register_address 1 s of
        (Inl e, s') \<Rightarrow> (Inl e, s')
      | (Inr buf, s') \<Rightarrow>
          (Inr (drop_bit lowest_bit (uint (buf ! 0) AND bit_mask num_bits lowest_bit)), s'))"

fun RWBits_set :: "RWBits \<Rightarrow> PCF85263A \<Rightarrow> int \<Rightarrow> unit io" where
  "RWBits_set (RWBits num_bits register_address lowest_bit) self v s =
     (case write_then_readinto (i2c_device self) register_address 1 s of
        (Inl e, s') \<Rightarrow> (Inl e, s')
      | (Inr buf, s') \<Rightarrow>
          i2c_write (i2c_device self) register_address
            [word_of_int ((uint (buf ! 0) AND NOT (bit_mask num_bits lowest_bit))
                          OR push_bit lowest_bit v)] s')"

section \<open>The BCD date and time block\<close>

text \<open>
  The fields of \<^verbatim>\<open>time.struct_time\<close> that the chip stores. The year is the two-digit
  offset the specification's DateTime value carries.
\<close>

record struct_time =
  tm_year :: int
  tm_mon :: int
  tm_mday :: int
  tm_hour :: int
  tm_min :: int
  tm_sec :: int
  tm_wday :: int

datatype BCDDateTimeRegister = BCDDateTimeRegister nat bool int

text \<open>
  Modelled from the spec: the descriptor class \<^verbatim>\<open>i2c_bcd_datetime.BCDDateTimeRegister\<close>
  of the \<^verbatim>\<open>adafruit_register\<close> package is not part of the source tree. Sections 3, 4.2 and
  7 of the specification give its behaviour: each field is range-checked before encoding
  (year 0-99, month 1-12, day 1-31, weekday 0-6, hour 0-23, minute 0-59, second 0-59) and
  a field outside its domain is rejected with a range error before any bus transaction;
  each field's value is split into a tens and a units nibble packed into one byte; the
  block is seven bytes from the base address, seconds first, with the weekday before or
  after the day of the month and counted from a configurable origin; the compromised flag
  (bit 7 of the seconds byte) is not part of the decoded value.
\<close>

definition valid_datetime :: "struct_time \<Rightarrow> bool" where
  "valid_datetime v \<longleftrightarrow>
     0 \<le> tm_year v \<and> tm_year v \<le> 99 \<and>
     1 \<le> tm_mon v \<and> tm_mon v \<le> 12 \<and>
     1 \<le> tm_mday v \<and> tm_mday v \<le> 31 \<and>
     0 \<le> tm_wday v \<and> tm_wday v \<le> 6 \<and>
     0 \<le> tm_hour v \<and> tm_hour v \<le> 23 \<and>
     0 \<le> tm_min v \<and> tm_min v \<le> 59 \<and>
     0 \<le> tm_sec v \<and> tm_sec v \<le> 59"

definition bin2bcd :: "int \<Rightarrow> byte" where
  "bin2bcd v = word_of_int (16 * (v div 10) + v mod 10)"

definition bcd2bin :: "byte \<Rightarrow> int" where
  "bcd2bin b = 10 * (uint b div 16) + uint b mod 16"

definition encode_datetime :: "bool \<Rightarrow> int \<Rightarrow> struct_time \<Rightarrow> byte list" where
  "encode_datetime weekday_first weekday_start v =
     [bin2bcd (tm_sec v), bin2bcd (tm_min v), bin2bcd (tm_hour v)] @
     (if weekday_first
      then [bin2bcd (tm_wday v + weekday_start), bin2bcd (tm_mday v)]
      else [bin2bcd (tm_mday v), bin2bcd (tm_wday v + weekday_start)]) @
     [bin2bcd (tm_mon v), bin2bcd (tm_year v)]"

definition decode_datetime :: "bool \<Rightarrow> int \<Rightarrow> byte list \<Rightarrow> struct_time" where
  "decode_datetime weekday_first weekday_start buf =
     \<lparr>tm_year = bcd2bin (buf ! 6),
      tm_mon = bcd2bin (buf ! 5),
      tm_mday = bcd2bin (buf ! (if weekday_first then 4 else 3)),
      tm_hour = bcd2bin (buf ! 2),
      tm_min = bcd2bin (buf ! 1),
      tm_sec = bcd2bin (buf ! 0 AND 0x7F),
      tm_wday = bcd2bin (buf ! (if weekday_first then 3 else 4)) - weekday_start\<rparr>"

fun BCDDateTimeRegister_get :: "BCDDateTimeRegister \<Rightarrow> PCF85263A \<Rightarrow> struct_time io" where
  "BCDDateTimeRegister_get (BCDDateTimeRegister register_address weekday_first weekday_start)
       self s =
     (case write_then_readinto (i2c_device self) register_address 7 s of
        (Inl e, s') \<Rightarrow> (Inl e, s')
      | (Inr buf, s') \<Rightarrow> (Inr (decode_datetime weekday_first weekday_start buf), s'))"

fun BCDDateTimeRegister_set ::
  "BCDDateTimeRegister \<Rightarrow> PCF85263A \<Rightarrow> struct_time \<Rightarrow> unit io" where
  "BCDDateTimeRegister_set (BCDDateTimeRegister register_address weekday_first weekday_start)
       self v s =
     (if \<not> valid_datetime v then (Inl RangeError, s)
      else i2c_write (i2c_device self) register_address
             (encode_datetime weekday_first weekday_start v) s)"

section \<open>The register map of the class\<close>

text \<open>The class attributes, in the order of the source, each with its arguments.\<close>

definition datetime_compromised :: RWBit where
  "datetime_compromised = RWBit 0x1 7"

definition datetime_register :: BCDDateTimeRegister where
  "datetime_register = BCDDateTimeRegister 0x01 False 0"

definition timestamp1_control_mode :: RWBits where
  "timestamp1_control_mode = RWBits 2 0x23 0"

definition timestamp2_control_mode :: RWBits where
  "timestamp2_control_mode = RWBits 3 0x23 2"

definition timestamp3_control_mode :: RWBits where
  "timestamp3_control_mode = RWBits 2 0x23 6"

definition alarm_interrupt :: RWBit where
  "alarm_interrupt = RWBit 0x01 1"

definition periodic_interrupt_flag :: RWBit where
  "periodic_interrupt_flag = RWBit 0x2B 7"

definition alarm2_flag :: RWBit where
  "alarm2_flag = RWBit 0x2B 6"

definition alarm1_flag :: RWBit where
  "alarm1_flag = RWBit 0x2B 5"

definition watchdog_flag :: RWBit where
  "watchdog_flag = RWBit 0x2B 4"

definition battery_switch_flag :: RWBit where
  "battery_switch_flag = RWBit 0x2B 3"

definition timestamp3_event_flag :: RWBit where
  "timestamp3_event_flag = RWBit 0x2B 2"

definition timestamp2_event_flag :: RWBit where
  "timestamp2_event_flag = RWBit 0x2B 1"

definition timestamp1_event_flag :: RWBit where
  "timestamp1_event_flag = RWBit 0x2B 0"

definition alarm2_control_compare_weekdays :: RWBit where
  "alarm2_control_compare_weekdays = RWBit 0x10 7"

definition alarm2_control_compare_hours :: RWBit where
  "alarm2_control_compare_hours = RWBit 0x10 6"

definition alarm2_control_compare_minutes :: RWBit where
  "alarm2_control_compare_minutes = RWBit 0x10 5"

definition alarm1_control_compare_months :: RWBit where
  "alarm1_control_compare_months = RWBit 0x10 4"

definition alarm1_control_compare_days :: RWBit where
  "alarm1_control_compare_days = RWBit 0x10 3"

definition alarm1_control_compare_hours :: RWBit where
  "alarm1_control_compare_hours = RWBit 0x10 2"

definition alarm1_control_compare_minutes :: RWBit where
  "alarm1_control_compare_minutes = RWBit 0x10 1"


definition oscillator_capacitance :: RWBits where
  "oscillator_capacitance = RWBits 2 0x25 0"

definition offset_register :: RWBits where
  "offset_register = RWBits 8 0x24 0"

section \<open>The datetime property\<close>

definition datetime_get :: "PCF85263A \<Rightarrow> struct_time io" where
  "datetime_get self s = BCDDateTimeRegister_get datetime_register self s"

definition datetime_set :: "PCF85263A \<Rightarrow> struct_time \<Rightarrow> unit io" where
  "datetime_set self v s =
     (case BCDDateTimeRegister_set datetime_register self v s of
        (Inl e, s') \<Rightarrow> (Inl e, s')
      | (Inr u, s') \<Rightarrow> RWBit_set datetime_compromised self False s')"

section \<open>Test fixtures\<close>

text \<open>
  A driver object on the chip's address, a chip whose registers are all zero, one whose
  registers are all ones, and the date of the specification's end-to-end scenario
  (2024-03-15, a Friday, 14:30:45).
\<close>

definition rtc :: PCF85263A where
  "rtc = \<lparr>i2c_device = 0x51\<rparr>"

definition chip0 :: chip where
  "chip0 = \<lparr>regs = (\<lambda>a. 0), faults = [], log = []\<rparr>"

definition chip1 :: chip where
  "chip1 = \<lparr>regs = (\<lambda>a. 0xFF), faults = [], log = []\<rparr>"

definition dt0 :: struct_time where
  "dt0 = \<lparr>tm_year = 24, tm_mon = 3, tm_mday = 15, tm_hour = 14, tm_min = 30,
          tm_sec = 45, tm_wday = 5\<rparr>"

section \<open>Bytes and bits\<close>

lemmas io_defs = write_then_readinto_def i2c_write_def Let_def next_fails_def

lemmas datetime_defs =
  datetime_set_def datetime_get_def datetime_register_def datetime_compromised_def

lemma byte_7F: "(0x7F :: byte) = mask 7"
  by (simp add: mask_eq_exp_minus_1)

lemma uint_and_7F: "uint (w AND 0x7F :: byte) = uint w mod 128"
  by (simp only: byte_7F flip: take_bit_eq_mask)
    (simp only: unsigned_take_bit_eq, simp add: take_bit_eq_mod)

lemma bit_clear_iff: "bit ((w AND NOT (push_bit b 1)) :: byte) i \<longleftrightarrow> bit w i \<and> i \<noteq> b"
  by (auto simp add: bit_simps dest: bit_imp_le_length)

lemma bit_raise_iff: "bit ((w OR (push_bit b 1)) :: byte) i \<longleftrightarrow> bit w i \<or> (i = b \<and> b < 8)"
  by (auto simp add: bit_simps)

lemma bit_and_7F: "bit (w AND 0x7F :: byte) i \<longleftrightarrow> bit w i \<and> i \<noteq> 7"
  by (auto simp add: byte_7F bit_simps dest: bit_imp_le_length)

lemma uint_byte_of_int: "0 \<le> x \<Longrightarrow> x < 256 \<Longrightarrow> uint (word_of_int x :: byte) = x"
  by (simp add: uint_word_of_int take_bit_eq_mod)

lemma uint_bin2bcd:
  "0 \<le> v \<Longrightarrow> v \<le> 99 \<Longrightarrow> uint (bin2bcd v) = 16 * (v div 10) + v mod 10"
  unfolding bin2bcd_def by (rule uint_byte_of_int) auto

lemma bcd2bin_bin2bcd: "0 \<le> v \<Longrightarrow> v \<le> 99 \<Longrightarrow> bcd2bin (bin2bcd v) = v"
  by (simp add: bcd2bin_def uint_bin2bcd)

lemma bcd2bin_seconds: "0 \<le> v \<Longrightarrow> v \<le> 59 \<Longrightarrow> bcd2bin (bin2bcd v AND 0x7F) = v"
  by (simp add: bcd2bin_def uint_and_7F uint_bin2bcd)

lemma decode_encode:
  "valid_datetime v \<Longrightarrow> weekday_start = 0 \<or> weekday_start = 1 \<Longrightarrow>
   decode_datetime weekday_first weekday_start
     (encode_datetime weekday_first weekday_start v) = v"
  by (auto simp add: decode_datetime_def encode_datetime_def valid_datetime_def
      bcd2bin_bin2bcd bcd2bin_seconds)

lemma and_7F_clear: "(w AND NOT (push_bit 7 1)) AND 0x7F = w AND (0x7F :: byte)"
  by (rule bit_eqI) (simp only: bit_and_7F bit_clear_iff, blast)

lemma bit_80: "bit (0x80 :: byte) n \<longleftrightarrow> n = 7"
proof -
  have "(0x80 :: byte) = 2 ^ 7" by simp
  then show ?thesis by (simp only: bit_exp_iff) auto
qed

lemma xor_80_and_7F: "(w XOR 0x80) AND 0x7F = w AND (0x7F :: byte)"
  by (rule bit_eqI) (simp only: bit_and_7F bit_xor_iff bit_80, blast)

section \<open>Bit 1 of a BCD byte\<close>

lemma bit1_int: "bit (x :: int) 1 \<longleftrightarrow> x div 2 mod 2 = 1"
  by (simp add: bit_iff_odd_drop_bit drop_bit_eq_div odd_iff_mod_2_eq_one)

lemma uint_raise_bit1: "\<not> bit w 1 \<Longrightarrow> uint (w OR push_bit 1 1 :: byte) = uint w + 2"
proof -
  assume a: "\<not> bit w 1"
  have "uint (w OR push_bit 1 1) = set_bit 1 (uint w)"
    by (simp add: uint_or set_bit_eq_or)
  also have "\<dots> = uint w + 2"
    using a by (simp add: set_bit_eq bit_uint_iff)
  finally show ?thesis .
qed

lemma uint_clear_bit1: "bit w 1 \<Longrightarrow> uint (w AND NOT (push_bit 1 1) :: byte) = uint w - 2"
proof -
  assume a: "bit w 1"
  have "uint (w AND NOT (push_bit 1 1)) = uint (unset_bit 1 w)"
    by (simp only: unset_bit_eq_and_not)
  also have "\<dots> = unset_bit 1 (uint w)"
    by (rule bit_eqI) (auto simp add: bit_simps)
  also have "\<dots> = uint w - 2"
    using a by (simp add: unset_bit_eq bit_uint_iff)
  finally show ?thesis .
qed

lemma mod128_split: "(x :: int) mod 128 = 16 * (x div 16 mod 8) + x mod 16"
  using zmod_zmult2_eq [of 8 x 16] by simp

lemma mod4_split: "(x :: int) mod 4 = 2 * (x div 2 mod 2) + x mod 2"
  using zmod_zmult2_eq [of 2 x 2] by simp

lemma mod16_split: "(x :: int) mod 16 = 4 * (x div 4 mod 4) + x mod 4"
  using zmod_zmult2_eq [of 4 x 4] by simp

lemma bcd_of_mod128:
  "10 * ((x :: int) mod 128 div 16) + x mod 128 mod 16 = 10 * (x div 16 mod 8) + x mod 16"
proof -
  have "x mod 128 div 16 = x div 16 mod 8"
    unfolding mod128_split by simp
  moreover have "x mod 128 mod 16 = x mod 16"
    by (simp add: mod_mod_cancel)
  ultimately show ?thesis by simp
qed

lemma low_up: "(x :: int) div 2 mod 2 = 0 \<Longrightarrow> x mod 16 \<le> 13"
proof -
  assume a: "x div 2 mod 2 = 0"
  have "x mod 4 \<le> 1" using a mod4_split [of x] by simp
  moreover have "x div 4 mod 4 \<le> 3" by simp
  ultimately show ?thesis using mod16_split [of x] by linarith
qed

lemma low_down: "(x :: int) div 2 mod 2 = 1 \<Longrightarrow> 2 \<le> x mod 16"
proof -
  assume a: "x div 2 mod 2 = 1"
  have "2 \<le> x mod 4" using a mod4_split [of x] by simp
  moreover have "0 \<le> x div 4 mod 4" by simp
  ultimately show ?thesis using mod16_split [of x] by linarith
qed

lemma step_up:
  assumes "(x :: int) mod 16 \<le> 13"
  shows "(x + 2) div 16 = x div 16 \<and> (x + 2) mod 16 = x mod 16 + 2"
proof -
  have "x + 2 = 16 * (x div 16) + (x mod 16 + 2)" by simp
  moreover have "0 \<le> x mod 16 + 2" "x mod 16 + 2 < 16" using assms by simp_all
  ultimately show ?thesis
    by (metis div_mult_self2 mod_mult_self2 add.commute div_pos_pos_trivial mod_pos_pos_trivial
        zero_neq_numeral add.right_neutral mult.commute)
qed

lemma step_down:
  assumes "2 \<le> (x :: int) mod 16"
  shows "(x - 2) div 16 = x div 16 \<and> (x - 2) mod 16 = x mod 16 - 2"
proof -
  have "x - 2 = 16 * (x div 16) + (x mod 16 - 2)" by simp
  moreover have "0 \<le> x mod 16 - 2" "x mod 16 - 2 < 16" using assms by simp_all
  ultimately show ?thesis
    by (metis div_mult_self2 mod_mult_self2 add.commute div_pos_pos_trivial mod_pos_pos_trivial
        zero_neq_numeral add.right_neutral mult.commute)
qed

lemma bcd2bin_and_7F: "bcd2bin (w AND 0x7F) = 10 * (uint w div 16 mod 8) + uint w mod 16"
  unfolding bcd2bin_def uint_and_7F by (rule bcd_of_mod128)

lemma bcd2bin_raise_bit1:
  assumes "\<not> bit w 1"
  shows "bcd2bin ((w OR push_bit 1 1) AND 0x7F) = bcd2bin (w AND 0x7F) + 2"
proof -
  have "\<not> bit (uint w) 1"
    using assms by (simp add: bit_uint_iff)
  then have "uint w div 2 mod 2 = 0"
    unfolding bit1_int by simp
  then have "uint w mod 16 \<le> 13"
    by (rule low_up)
  then show ?thesis
    unfolding bcd2bin_and_7F uint_raise_bit1 [OF assms] by (simp add: step_up)
qed

lemma bcd2bin_clear_bit1:
  assumes "bit w 1"
  shows "bcd2bin ((w AND NOT (push_bit 1 1)) AND 0x7F) = bcd2bin (w AND 0x7F) - 2"
proof -
  have "bit (uint w) 1"
    using assms by (simp add: bit_uint_iff)
  then have "uint w div 2 mod 2 = 1"
    unfolding bit1_int .
  then have "2 \<le> uint w mod 16"
    by (rule low_down)
  then show ?thesis
    unfolding bcd2bin_and_7F uint_clear_bit1 [OF assms] by (simp add: step_down)
qed

section \<open>What the datetime property does to the registers\<close>

lemma regs_datetime_set:
  assumes "fst (datetime_set self v s) = Inr ()"
  shows "regs (snd (datetime_set self v s)) =
           (\<lambda>a. if a = 1 then bin2bcd (tm_sec v) AND NOT (push_bit 7 1)
                else if a = 2 then bin2bcd (tm_min v)
                else if a = 3 then bin2bcd (tm_hour v)
                else if a = 4 then bin2bcd (tm_mday v)
                else if a = 5 then bin2bcd (tm_wday v)
                else if a = 6 then bin2bcd (tm_mon v)
                else if a = 7 then bin2bcd (tm_year v)
                else regs s a)"
  using assms
  by (auto simp add: datetime_defs io_defs encode_datetime_def fun_eq_iff nth_Cons'
      split: if_splits list.splits simp del: push_bit_of_1)

lemma fst_datetime_get:
  "fst (datetime_get self s) =
     (if next_fails s then Inl TransportError
      else Inr (decode_datetime False 0 (map (\<lambda>i. regs s (1 + i)) [0..<7])))"
  by (simp add: datetime_defs write_then_readinto_def Let_def)

section \<open>Single-bit descriptors\<close>

lemma raise_idem: "bit w b \<Longrightarrow> w OR push_bit b 1 = (w :: byte)"
  by (rule bit_eqI) (auto simp only: bit_raise_iff dest: bit_imp_le_length)

lemma clear_idem: "\<not> bit w b \<Longrightarrow> w AND NOT (push_bit b 1) = (w :: byte)"
  by (rule bit_eqI) (auto simp only: bit_clear_iff)

lemma fst_RWBit_get:
  "fst (RWBit_get (RWBit a b) self s) =
     (if next_fails s then Inl TransportError else Inr (bit (regs s a) b))"
  by (simp add: write_then_readinto_def Let_def)

lemma regs_RWBit_set:
  "regs (snd (RWBit_set (RWBit a b) self v s)) =
     (if fst (RWBit_set (RWBit a b) self v s) = Inr ()
      then (regs s)(a := (if v then regs s a OR push_bit b 1
                          else regs s a AND NOT (push_bit b 1)))
      else regs s)"
  by (auto simp add: io_defs fun_eq_iff split: if_splits list.splits simp del: push_bit_of_1)

lemmas eval_defs = datetime_defs io_defs alarm_interrupt_def chip1_def chip0_def dt0_def
  rtc_def valid_datetime_def encode_datetime_def decode_datetime_def bin2bcd_def bcd2bin_def

section \<open>Multi-bit descriptors\<close>

lemma bit_bit_mask: "bit (bit_mask n lo) i \<longleftrightarrow> lo \<le> i \<and> i < lo + n"
  by (auto simp add: bit_mask_def bit_push_bit_iff bit_mask_iff simp flip: mask_eq_exp_minus_1)

lemma bit_small: "0 \<le> v \<Longrightarrow> v < 2 ^ n \<Longrightarrow> bit (v :: int) j \<Longrightarrow> j < n"
proof -
  assume a: "0 \<le> v" "v < 2 ^ n" "bit v j"
  have "take_bit n v = v" using a by (simp add: take_bit_int_eq_self)
  then have "bit (take_bit n v) j" using a by simp
  then show ?thesis by (simp add: bit_take_bit_iff)
qed

lemma field_value: "drop_bit lo (uint w AND bit_mask n lo) = uint (w :: byte) div 2 ^ lo mod 2 ^ n"
proof -
  have "drop_bit lo (uint w AND bit_mask n lo) = take_bit n (drop_bit lo (uint w))"
    by (rule bit_eqI) (auto simp add: bit_simps bit_bit_mask)
  then show ?thesis by (simp add: take_bit_eq_mod drop_bit_eq_div)
qed

lemma bit_field_update:
  "bit (word_of_int ((uint w AND NOT (bit_mask n lo)) OR push_bit lo v) :: byte) i \<longleftrightarrow>
     i < 8 \<and> ((bit w i \<and> \<not> (lo \<le> i \<and> i < lo + n)) \<or> (lo \<le> i \<and> bit v (i - lo)))"
  by (auto simp add: bit_simps bit_bit_mask dest: bit_imp_le_length)

lemma fst_RWBits_get:
  "fst (RWBits_get (RWBits n a lo) self s) =
     (if next_fails s then Inl TransportError else Inr (uint (regs s a) div 2 ^ lo mod 2 ^ n))"
  by (simp only: RWBits_get.simps field_value) (simp add: write_then_readinto_def Let_def)

lemma regs_RWBits_set:
  "regs (snd (RWBits_set (RWBits n a lo) self v s)) =
     (if fst (RWBits_set (RWBits n a lo) self v s) = Inr ()
      then (regs s)(a := word_of_int ((uint (regs s a) AND NOT (bit_mask n lo)) OR push_bit lo v))
      else regs s)"
  by (auto simp add: io_defs fun_eq_iff split: if_splits list.splits)

lemma bit_regs_RWBit_set:
  "bit (regs (snd (RWBit_set (RWBit a b) self x s)) r) i \<longleftrightarrow>
     (if fst (RWBit_set (RWBit a b) self x s) = Inr () \<and> r = a \<and> i = b \<and> b < 8
      then x else bit (regs s r) i)"
  by (simp only: regs_RWBit_set) (auto simp add: bit_clear_iff bit_raise_iff simp del: push_bit_of_1 RWBit_set.simps
      dest: bit_imp_le_length)

lemma bit_regs_RWBits_set:
  "bit (regs (snd (RWBits_set (RWBits n a lo) self v s)) r) i \<longleftrightarrow>
     (if fst (RWBits_set (RWBits n a lo) self v s) = Inr () \<and> r = a
      then i < 8 \<and> ((bit (regs s a) i \<and> \<not> (lo \<le> i \<and> i < lo + n)) \<or>
           (lo \<le> i \<and> bit v (i - lo)))
      else bit (regs s r) i)"
  by (simp only: regs_RWBits_set) (auto simp add: bit_field_update simp del: RWBits_set.simps)

lemmas flag_defs = periodic_interrupt_flag_def alarm2_flag_def alarm1_flag_def
  watchdog_flag_def battery_switch_flag_def timestamp3_event_flag_def
  timestamp2_event_flag_def timestamp1_event_flag_def

lemmas mode_defs = timestamp1_control_mode_def timestamp2_control_mode_def
  timestamp3_control_mode_def

lemmas fixture_defs = chip0_def chip1_def rtc_def dt0_def

lemma offset_register_raw:
  "fst (RWBits_get offset_register self s) =
     (if next_fails s then Inl TransportError else Inr (uint (regs s 0x24)))"
proof -
  have "uint (regs s 0x24) < 256"
    using uint_lt2p [of "regs s 0x24"] by simp
  then have "uint (regs s 0x24) div 2 ^ 0 mod 2 ^ 8 = uint (regs s 0x24)"
    by simp
  then show ?thesis
    by (simp only: offset_register_def fst_RWBits_get)
qed

section \<open>Writing the date and time\<close>

text \<open>
  C1. When assigning the datetime property succeeds, the driver has issued, in this
  order, the write of the seven-byte block at register 0x01, a read of register 0x01 and
  the write of that byte with bit 7 cleared; a read of \<^verbatim>\<open>datetime_compromised\<close> that
  follows, if its own transaction does not fail, returns False.
\<close>

theorem datetime_set_clears_compromised:
  assumes "fst (datetime_set self v s) = Inr ()"
    and "\<not> next_fails (snd (datetime_set self v s))"
  shows "fst (RWBit_get datetime_compromised self (snd (datetime_set self v s))) = Inr False \<and>
         log (snd (datetime_set self v s)) = log s @
           [Write (i2c_device self) 0x01 (encode_datetime False 0 v),
            WriteThenRead (i2c_device self) 0x01 1,
            Write (i2c_device self) 0x01 [bin2bcd (tm_sec v) AND NOT (push_bit 7 1)]]"
  using assms
  by (auto simp add: datetime_defs io_defs encode_datetime_def bit_clear_iff
      split: if_splits list.splits simp del: push_bit_of_1)

theorem datetime_set_clears_compromised_witness:
  "fst (datetime_set rtc dt0 chip1) = Inr () \<and>
   \<not> next_fails (snd (datetime_set rtc dt0 chip1)) \<and>
   fst (RWBit_get datetime_compromised rtc chip1) = Inr True \<and>
   fst (RWBit_get datetime_compromised rtc (snd (datetime_set rtc dt0 chip1))) = Inr False"
proof -
  have h1: "fst (datetime_set rtc dt0 chip1) = Inr ()"
    by (simp add: datetime_defs io_defs chip1_def dt0_def valid_datetime_def)
  have h2: "\<not> next_fails (snd (datetime_set rtc dt0 chip1))"
    by (simp add: datetime_defs io_defs chip1_def dt0_def valid_datetime_def)
  have h3: "fst (RWBit_get datetime_compromised rtc chip1) = Inr True"
    by (simp add: datetime_defs io_defs chip1_def)
  show ?thesis
    using datetime_set_clears_compromised [OF h1 h2] h1 h2 h3 by simp
qed

text \<open>
  C2. A value with a field outside its domain is rejected with the range error, and the
  chip is left exactly as it was: no register changes and nothing is added to the log of
  bus transactions.
\<close>

theorem datetime_set_rejects_invalid:
  "\<not> valid_datetime v \<Longrightarrow> datetime_set self v s = (Inl RangeError, s)"
  by (simp add: datetime_set_def datetime_register_def)

theorem datetime_set_rejects_invalid_witness:
  "\<not> valid_datetime (dt0\<lparr>tm_sec := 60\<rparr>) \<and>
   datetime_set rtc (dt0\<lparr>tm_sec := 60\<rparr>) chip1 = (Inl RangeError, chip1)"
proof -
  have h: "\<not> valid_datetime (dt0\<lparr>tm_sec := 60\<rparr>)"
    by (simp add: valid_datetime_def dt0_def)
  show ?thesis using datetime_set_rejects_invalid [OF h] h by simp
qed

text \<open>
  C3. For every valid value the seven-byte block decodes back to the value it encodes;
  and when the value has been assigned to the datetime property, reading the property
  (if the read's transaction does not fail) returns the same fields.
\<close>

theorem datetime_round_trip:
  assumes "valid_datetime v"
  shows "decode_datetime False 0 (encode_datetime False 0 v) = v \<and>
         (fst (datetime_set self v s) = Inr () \<and> \<not> next_fails (snd (datetime_set self v s))
          \<longrightarrow> fst (datetime_get self (snd (datetime_set self v s))) = Inr v)"
proof (intro conjI impI)
  show "decode_datetime False 0 (encode_datetime False 0 v) = v"
    using assms by (simp add: decode_encode)
next
  assume ok: "fst (datetime_set self v s) = Inr () \<and>
              \<not> next_fails (snd (datetime_set self v s))"
  have "decode_datetime False 0
          (map (\<lambda>i. regs (snd (datetime_set self v s)) (1 + i)) [0..<7]) = v"
    using assms ok
    by (simp add: regs_datetime_set decode_datetime_def and_7F_clear valid_datetime_def
        bcd2bin_bin2bcd bcd2bin_seconds del: push_bit_of_1)
  then show "fst (datetime_get self (snd (datetime_set self v s))) = Inr v"
    using ok by (simp add: fst_datetime_get)
qed

theorem datetime_round_trip_witness:
  "valid_datetime dt0 \<and>
   fst (datetime_set rtc dt0 chip1) = Inr () \<and>
   \<not> next_fails (snd (datetime_set rtc dt0 chip1)) \<and>
   decode_datetime False 0 (encode_datetime False 0 dt0) = dt0 \<and>
   fst (datetime_get rtc (snd (datetime_set rtc dt0 chip1))) = Inr dt0"
proof -
  have h0: "valid_datetime dt0"
    by (simp add: valid_datetime_def dt0_def)
  have h1: "fst (datetime_set rtc dt0 chip1) = Inr ()"
    by (simp add: datetime_defs io_defs chip1_def dt0_def valid_datetime_def)
  have h2: "\<not> next_fails (snd (datetime_set rtc dt0 chip1))"
    by (simp add: datetime_defs io_defs chip1_def dt0_def valid_datetime_def)
  show ?thesis
    using datetime_round_trip [OF h0, of rtc chip1] h0 h1 h2 by blast
qed

section \<open>Reading the date and time\<close>

text \<open>
  C10. Reading the datetime property is one read of seven bytes from register 0x01. It
  leaves every register as it was, returns the decoding of those seven bytes, and returns
  the same value when bit 7 of register 0x01, the compromised flag, is flipped: the flag
  is neither changed nor looked at.
\<close>

theorem datetime_get_pure:
  "regs (snd (datetime_get self s)) = regs s \<and>
   log (snd (datetime_get self s)) = log s @ [WriteThenRead (i2c_device self) 0x01 7] \<and>
   fst (datetime_get self s) =
     (if next_fails s then Inl TransportError
      else Inr (decode_datetime False 0 (map (\<lambda>i. regs s (1 + i)) [0..<7]))) \<and>
   fst (datetime_get self (s\<lparr>regs := (regs s)(1 := regs s 1 XOR 0x80)\<rparr>)) =
     fst (datetime_get self s)"
proof (intro conjI)
  show "fst (datetime_get self (s\<lparr>regs := (regs s)(1 := regs s 1 XOR 0x80)\<rparr>)) =
     fst (datetime_get self s)"
    by (simp add: fst_datetime_get next_fails_def decode_datetime_def xor_80_and_7F)
qed (simp_all add: datetime_defs write_then_readinto_def Let_def)

section \<open>The alarm interrupt bit and the seconds byte\<close>

text \<open>
  C6. \<^verbatim>\<open>alarm_interrupt\<close> is bit 1 of register 0x01, the byte that holds the BCD seconds
  and the compromised flag. After the datetime property has been assigned, a read of
  \<^verbatim>\<open>alarm_interrupt\<close> returns bit 1 of the encoded seconds. After \<^verbatim>\<open>alarm_interrupt\<close>
  has been assigned, the date and time read back are the ones stored before, except for
  the seconds: these are unchanged if the bit already had the new value, two more if the
  bit went from 0 to 1, and two less if it went from 1 to 0.
\<close>

theorem alarm_interrupt_aliases_seconds:
  "fst (RWBit_get alarm_interrupt self s) =
     (if next_fails s then Inl TransportError else Inr (bit (regs s 1) 1)) \<and>
   (fst (datetime_set self v s) = Inr () \<and> \<not> next_fails (snd (datetime_set self v s)) \<longrightarrow>
      fst (RWBit_get alarm_interrupt self (snd (datetime_set self v s))) =
        Inr (bit (bin2bcd (tm_sec v)) 1)) \<and>
   (fst (RWBit_set alarm_interrupt self b t) = Inr () \<and>
    \<not> next_fails (snd (RWBit_set alarm_interrupt self b t)) \<longrightarrow>
      fst (datetime_get self (snd (RWBit_set alarm_interrupt self b t))) =
        Inr ((decode_datetime False 0 (map (\<lambda>i. regs t (1 + i)) [0..<7]))
               \<lparr>tm_sec := bcd2bin (regs t 1 AND 0x7F) +
                           (if bit (regs t 1) 1 = b then 0 else if b then 2 else - 2)\<rparr>))"
proof (intro conjI impI)
  show "fst (RWBit_get alarm_interrupt self s) =
     (if next_fails s then Inl TransportError else Inr (bit (regs s 1) 1))"
    by (simp only: alarm_interrupt_def fst_RWBit_get)
next
  assume "fst (datetime_set self v s) = Inr () \<and> \<not> next_fails (snd (datetime_set self v s))"
  then show "fst (RWBit_get alarm_interrupt self (snd (datetime_set self v s))) =
        Inr (bit (bin2bcd (tm_sec v)) 1)"
    by (simp only: alarm_interrupt_def fst_RWBit_get)
      (simp add: regs_datetime_set bit_clear_iff del: push_bit_of_1)
next
  let ?t' = "snd (RWBit_set alarm_interrupt self b t)"
  assume ok: "fst (RWBit_set alarm_interrupt self b t) = Inr () \<and> \<not> next_fails ?t'"
  have r: "regs ?t' = (regs t)(1 := (if b then regs t 1 OR push_bit 1 1
                                    else regs t 1 AND NOT (push_bit 1 1)))"
    using ok unfolding alarm_interrupt_def by (simp only: regs_RWBit_set simp_thms if_True)
  have sec: "bcd2bin ((if b then regs t 1 OR push_bit 1 1
                       else regs t 1 AND NOT (push_bit 1 1)) AND 0x7F) =
             bcd2bin (regs t 1 AND 0x7F) +
               (if bit (regs t 1) 1 = b then 0 else if b then 2 else - 2)"
    using raise_idem [of "regs t 1" 1] clear_idem [of "regs t 1" 1]
      bcd2bin_raise_bit1 [of "regs t 1"] bcd2bin_clear_bit1 [of "regs t 1"]
    by (cases b; cases "bit (regs t 1) 1"; simp del: push_bit_of_1)
  show "fst (datetime_get self ?t') =
        Inr ((decode_datetime False 0 (map (\<lambda>i. regs t (1 + i)) [0..<7]))
               \<lparr>tm_sec := bcd2bin (regs t 1 AND 0x7F) +
                           (if bit (regs t 1) 1 = b then 0 else if b then 2 else - 2)\<rparr>)"
    using ok sec by (simp add: fst_datetime_get r decode_datetime_def del: push_bit_of_1)
qed

theorem alarm_interrupt_aliases_seconds_witness:
  "fst (datetime_set rtc dt0 chip1) = Inr () \<and>
   \<not> next_fails (snd (datetime_set rtc dt0 chip1)) \<and>
   fst (RWBit_get alarm_interrupt rtc chip1) = Inr True \<and>
   fst (RWBit_get alarm_interrupt rtc (snd (datetime_set rtc dt0 chip1))) = Inr False \<and>
   fst (RWBit_set alarm_interrupt rtc True (snd (datetime_set rtc dt0 chip1))) = Inr () \<and>
   \<not> next_fails (snd (RWBit_set alarm_interrupt rtc True (snd (datetime_set rtc dt0 chip1)))) \<and>
   fst (datetime_get rtc
         (snd (RWBit_set alarm_interrupt rtc True (snd (datetime_set rtc dt0 chip1))))) =
     Inr (dt0\<lparr>tm_sec := 47\<rparr>)"
proof -
  let ?s = "snd (datetime_set rtc dt0 chip1)"
  have h1: "fst (datetime_set rtc dt0 chip1) = Inr () \<and> \<not> next_fails ?s"
    by (simp add: eval_defs)
  have h2: "fst (RWBit_set alarm_interrupt rtc True ?s) = Inr () \<and>
            \<not> next_fails (snd (RWBit_set alarm_interrupt rtc True ?s))"
    by (simp add: eval_defs)
  have h3: "fst (RWBit_get alarm_interrupt rtc chip1) = Inr True"
    by (simp add: eval_defs)
  have h4: "bit (bin2bcd (tm_sec dt0)) 1 = False"
    by (simp add: eval_defs)
  have h5: "(decode_datetime False 0 (map (\<lambda>i. regs ?s (1 + i)) [0..<7]))
               \<lparr>tm_sec := bcd2bin (regs ?s 1 AND 0x7F) +
                           (if bit (regs ?s 1) 1 = True then 0 else if True then 2 else - 2)\<rparr>
            = dt0\<lparr>tm_sec := 47\<rparr>"
    by (simp add: eval_defs)
  show ?thesis
    using alarm_interrupt_aliases_seconds [of rtc chip1 dt0 True ?s] h1 h2 h3 h4 h5
    by simp
qed

section \<open>Fields that share a byte\<close>




section \<open>The timestamp mode byte\<close>

text \<open>
  C4, as stated, puts the mode of slot 3 in bits 5-6 of register 0x23. The source
  declares it as \<^verbatim>\<open>RWBits(2, 0x23, 6)\<close>: with only bit 5 set the mode of slot 3 reads 0,
  not the 1 that bits 5-6 would give; with only bit 7 set it reads 2; and writing mode 3
  to a zeroed register gives 0xC0.
\<close>

theorem timestamp3_mode_not_bits_5_6:
  "fst (RWBits_get timestamp3_control_mode rtc (chip0\<lparr>regs := (regs chip0)(0x23 := 0x20)\<rparr>))
     \<noteq> Inr (uint (regs (chip0\<lparr>regs := (regs chip0)(0x23 := 0x20)\<rparr>) 0x23) div 2 ^ 5 mod 2 ^ 2) \<and>
   fst (RWBits_get timestamp3_control_mode rtc (chip0\<lparr>regs := (regs chip0)(0x23 := 0x20)\<rparr>))
     = Inr 0 \<and>
   fst (RWBits_get timestamp3_control_mode rtc (chip0\<lparr>regs := (regs chip0)(0x23 := 0x80)\<rparr>))
     = Inr 2 \<and>
   regs (snd (RWBits_set timestamp3_control_mode rtc 3 chip0)) 0x23 = 0xC0"
  by (simp add: mode_defs io_defs fixture_defs bit_mask_def)

text \<open>
  C4, amended. Slot 1 is bits 0-1, slot 2 is bits 2-4 and slot 3 is bits 6-7 of register
  0x23 (bit 5 belongs to no slot). Reading a slot's mode returns the number held in those
  bits; a successful write of a mode that fits the slot's width puts the mode into those
  bits and leaves every other bit of the byte as it was.
\<close>

theorem timestamp_mode_fields:
  "fst (RWBits_get timestamp1_control_mode self s) =
     (if next_fails s then Inl TransportError else Inr (uint (regs s 0x23) mod 4)) \<and>
   fst (RWBits_get timestamp2_control_mode self s) =
     (if next_fails s then Inl TransportError else Inr (uint (regs s 0x23) div 4 mod 8)) \<and>
   fst (RWBits_get timestamp3_control_mode self s) =
     (if next_fails s then Inl TransportError else Inr (uint (regs s 0x23) div 64 mod 4)) \<and>
   (0 \<le> v \<and> v < 4 \<and> fst (RWBits_set timestamp1_control_mode self v s) = Inr () \<longrightarrow>
      bit (regs (snd (RWBits_set timestamp1_control_mode self v s)) 0x23) i =
        (if i < 2 then bit v i else bit (regs s 0x23) i)) \<and>
   (0 \<le> v \<and> v < 8 \<and> fst (RWBits_set timestamp2_control_mode self v s) = Inr () \<longrightarrow>
      bit (regs (snd (RWBits_set timestamp2_control_mode self v s)) 0x23) i =
        (if 2 \<le> i \<and> i < 5 then bit v (i - 2) else bit (regs s 0x23) i)) \<and>
   (0 \<le> v \<and> v < 4 \<and> fst (RWBits_set timestamp3_control_mode self v s) = Inr () \<longrightarrow>
      bit (regs (snd (RWBits_set timestamp3_control_mode self v s)) 0x23) i =
        (if 6 \<le> i \<and> i < 8 then bit v (i - 6) else bit (regs s 0x23) i))"
proof -
  have small: "bit v j \<Longrightarrow> j < n" if "0 \<le> v \<and> v < 2 ^ n" for n j
    using that bit_small [of v n j] by simp
  have r1: "fst (RWBits_get timestamp1_control_mode self s) =
     (if next_fails s then Inl TransportError else Inr (uint (regs s 0x23) mod 4))"
    by (simp only: mode_defs fst_RWBits_get) simp
  have r2: "fst (RWBits_get timestamp2_control_mode self s) =
     (if next_fails s then Inl TransportError else Inr (uint (regs s 0x23) div 4 mod 8))"
    by (simp only: mode_defs fst_RWBits_get) simp
  have r3: "fst (RWBits_get timestamp3_control_mode self s) =
     (if next_fails s then Inl TransportError else Inr (uint (regs s 0x23) div 64 mod 4))"
    by (simp only: mode_defs fst_RWBits_get) simp
  have w1: "bit (regs (snd (RWBits_set timestamp1_control_mode self v s)) 0x23) i =
        (if i < 2 then bit v i else bit (regs s 0x23) i)"
    if "0 \<le> v \<and> v < 4 \<and> fst (RWBits_set timestamp1_control_mode self v s) = Inr ()"
    using that small [of 2 i] unfolding mode_defs
    by (simp only: bit_regs_RWBits_set) (auto dest: bit_imp_le_length)
  have w2: "bit (regs (snd (RWBits_set timestamp2_control_mode self v s)) 0x23) i =
        (if 2 \<le> i \<and> i < 5 then bit v (i - 2) else bit (regs s 0x23) i)"
    if "0 \<le> v \<and> v < 8 \<and> fst (RWBits_set timestamp2_control_mode self v s) = Inr ()"
    using that small [of 3 "i - 2"] unfolding mode_defs
    by (simp only: bit_regs_RWBits_set) (auto dest: bit_imp_le_length)
  have w3: "bit (regs (snd (RWBits_set timestamp3_control_mode self v s)) 0x23) i =
        (if 6 \<le> i \<and> i < 8 then bit v (i - 6) else bit (regs s 0x23) i)"
    if "0 \<le> v \<and> v < 4 \<and> fst (RWBits_set timestamp3_control_mode self v s) = Inr ()"
    using that small [of 2 "i - 6"] unfolding mode_defs
    by (simp only: bit_regs_RWBits_set) (auto dest: bit_imp_le_length)
  show ?thesis
    using r1 r2 r3 w1 w2 w3 by blast
qed

theorem timestamp_mode_fields_witness:
  "(0 :: int) \<le> 2 \<and> (2 :: int) < 4 \<and> (2 :: int) < 8 \<and>
   fst (RWBits_set timestamp1_control_mode rtc 2 chip0) = Inr () \<and>
   fst (RWBits_set timestamp2_control_mode rtc 2 chip0) = Inr () \<and>
   fst (RWBits_set timestamp3_control_mode rtc 2 chip0) = Inr () \<and>
   \<not> bit (regs (snd (RWBits_set timestamp1_control_mode rtc 2 chip0)) 0x23) 7 \<and>
   \<not> bit (regs (snd (RWBits_set timestamp2_control_mode rtc 2 chip0)) 0x23) 7 \<and>
   bit (regs (snd (RWBits_set timestamp3_control_mode rtc 2 chip0)) 0x23) 7 \<and>
   regs (snd (RWBits_set timestamp1_control_mode rtc 2 chip0)) 0x23 = 0x02 \<and>
   regs (snd (RWBits_set timestamp2_control_mode rtc 2 chip0)) 0x23 = 0x08 \<and>
   regs (snd (RWBits_set timestamp3_control_mode rtc 2 chip0)) 0x23 = 0x80"
proof -
  have h1: "fst (RWBits_set timestamp1_control_mode rtc 2 chip0) = Inr ()"
    by (simp add: mode_defs io_defs fixture_defs)
  have h2: "fst (RWBits_set timestamp2_control_mode rtc 2 chip0) = Inr ()"
    by (simp add: mode_defs io_defs fixture_defs)
  have h3: "fst (RWBits_set timestamp3_control_mode rtc 2 chip0) = Inr ()"
    by (simp add: mode_defs io_defs fixture_defs)
  have e1: "regs (snd (RWBits_set timestamp1_control_mode rtc 2 chip0)) 0x23 = 0x02"
    by (simp add: mode_defs io_defs fixture_defs bit_mask_def)
  have e2: "regs (snd (RWBits_set timestamp2_control_mode rtc 2 chip0)) 0x23 = 0x08"
    by (simp add: mode_defs io_defs fixture_defs bit_mask_def)
  have e3: "regs (snd (RWBits_set timestamp3_control_mode rtc 2 chip0)) 0x23 = 0x80"
    by (simp add: mode_defs io_defs fixture_defs bit_mask_def)
  have b0: "\<not> bit (regs chip0 0x23) 7" "bit (2 :: int) (7 - 6)"
    by (simp_all add: fixture_defs)
  show ?thesis
    using timestamp_mode_fields [of rtc chip0 2 7] h1 h2 h3 e1 e2 e3 b0
    by simp
qed

section \<open>The status flags\<close>

text \<open>
  C9. Reading a status flag returns one bit of register 0x2B: bit 7 for the periodic
  interrupt, 6 for alarm 2, 5 for alarm 1, 4 for the watchdog, 3 for the battery switch,
  2, 1 and 0 for the events of timestamps 3, 2 and 1. A successful write of a flag gives
  that bit the value written and leaves the other seven bits as they were.
\<close>

theorem flags_bit_order:
  "fst (RWBit_get periodic_interrupt_flag self s) =
     (if next_fails s then Inl TransportError else Inr (bit (regs s 0x2B) 7)) \<and>
   fst (RWBit_get alarm2_flag self s) =
     (if next_fails s then Inl TransportError else Inr (bit (regs s 0x2B) 6)) \<and>
   fst (RWBit_get alarm1_flag self s) =
     (if next_fails s then Inl TransportError else Inr (bit (regs s 0x2B) 5)) \<and>
   fst (RWBit_get watchdog_flag self s) =
     (if next_fails s then Inl TransportError else Inr (bit (regs s 0x2B) 4)) \<and>
   fst (RWBit_get battery_switch_flag self s) =
     (if next_fails s then Inl TransportError else Inr (bit (regs s 0x2B) 3)) \<and>
   fst (RWBit_get timestamp3_event_flag self s) =
     (if next_fails s then Inl TransportError else Inr (bit (regs s 0x2B) 2)) \<and>
   fst (RWBit_get timestamp2_event_flag self s) =
     (if next_fails s then Inl TransportError else Inr (bit (regs s 0x2B) 1)) \<and>
   fst (RWBit_get timestamp1_event_flag self s) =
     (if next_fails s then Inl TransportError else Inr (bit (regs s 0x2B) 0)) \<and>
   bit (regs (snd (RWBit_set periodic_interrupt_flag self x s)) 0x2B) i =
     (if fst (RWBit_set periodic_interrupt_flag self x s) = Inr () \<and> i = 7 then x else bit (regs s 0x2B) i) \<and>
   bit (regs (snd (RWBit_set alarm2_flag self x s)) 0x2B) i =
     (if fst (RWBit_set alarm2_flag self x s) = Inr () \<and> i = 6 then x else bit (regs s 0x2B) i) \<and>
   bit (regs (snd (RWBit_set alarm1_flag self x s)) 0x2B) i =
     (if fst (RWBit_set alarm1_flag self x s) = Inr () \<and> i = 5 then x else bit (regs s 0x2B) i) \<and>
   bit (regs (snd (RWBit_set watchdog_flag self x s)) 0x2B) i =
     (if fst (RWBit_set watchdog_flag self x s) = Inr () \<and> i = 4 then x else bit (regs s 0x2B) i) \<and>
   bit (regs (snd (RWBit_set battery_switch_flag self x s)) 0x2B) i =
     (if fst (RWBit_set battery_switch_flag self x s) = Inr () \<and> i = 3 then x else bit (regs s 0x2B) i) \<and>
   bit (regs (snd (RWBit_set timestamp3_event_flag self x s)) 0x2B) i =
     (if fst (RWBit_set timestamp3_event_flag self x s) = Inr () \<and> i = 2 then x else bit (regs s 0x2B) i) \<and>
   bit (regs (snd (RWBit_set timestamp2_event_flag self x s)) 0x2B) i =
     (if fst (RWBit_set timestamp2_event_flag self x s) = Inr () \<and> i = 1 then x else bit (regs s 0x2B) i) \<and>
   bit (regs (snd (RWBit_set timestamp1_event_flag self x s)) 0x2B) i =
     (if fst (RWBit_set timestamp1_event_flag self x s) = Inr () \<and> i = 0 then x else bit (regs s 0x2B) i)"
proof -
  have w: "bit (regs (snd (RWBit_set (RWBit 0x2B b) self x s)) 0x2B) i =
             (if fst (RWBit_set (RWBit 0x2B b) self x s) = Inr () \<and> i = b then x
              else bit (regs s 0x2B) i)"
    if "b < 8" for b
    using that by (simp only: bit_regs_RWBit_set simp_thms)
  show ?thesis
    unfolding flag_defs
    by (intro conjI; (simp only: fst_RWBit_get | (rule w, simp)))
qed

section \<open>The calibration offset\<close>

text \<open>
  C8. The offset is declared as \<^verbatim>\<open>RWBits(8, 0x24, 0)\<close>, the same unsigned field
  descriptor as the mode selectors, while its docstring calls the value a signed number.
  Writing -1 succeeds and stores 0xFF, and the read that follows returns 255, not -1.
\<close>

theorem offset_register_negative_reads_unsigned:
  "fst (RWBits_set offset_register rtc (- 1) chip0) = Inr () \<and>
   regs (snd (RWBits_set offset_register rtc (- 1) chip0)) 0x24 = 0xFF \<and>
   fst (RWBits_get offset_register rtc (snd (RWBits_set offset_register rtc (- 1) chip0))) =
     Inr 255"
  by (simp add: offset_register_def io_defs fixture_defs bit_mask_def
      unsigned_minus_1_eq_mask mask_eq_exp_minus_1)

section \<open>Construction\<close>

text \<open>
  C7. Constructing the driver logs a 50 ms delay and then exactly one write-then-read of
  one byte of register 0x12 at device address 0x51. The outcome depends only on whether
  that transaction fails: whatever the registers hold, construction succeeds when the
  transaction does, and fails with the transport error otherwise.
\<close>

theorem init_single_unchecked_read:
  "log (snd (init s)) = log s @ [Sleep 50, WriteThenRead 0x51 0x12 1] \<and>
   regs (snd (init s)) = regs s \<and>
   fst (init s) = (if next_fails s then Inl TransportError else Inr \<lparr>i2c_device = 0x51\<rparr>) \<and>
   fst (init (s\<lparr>regs := r\<rparr>)) = fst (init s)"
  by (simp add: init_def sleep_def write_then_readinto_def next_fails_def Let_def)

end
